theory Spec2Isabelle
  imports Complex_Main
begin

section \<open>Values, documents and the document store\<close>

text \<open>
  Python strings are modelled by their UTF-8 encoding: a \<open>string\<close> is a list of bytes.
  The values that occur in request bodies and stored documents are \<open>None\<close>, booleans,
  numbers, strings, lists and \<open>datetime\<close>s. A \<open>datetime\<close> is an opaque tick count; a
  \<open>float\<close> is modelled by a rational number.
\<close>

datatype pyval =
    VNone
  | VBool bool
  | VNum rat
  | VStr string
  | VList "pyval list"
  | VDatetime nat

text \<open>
  \<open>bson.ObjectId\<close>: twelve bytes in the normal case, held here as the list of byte values.
  \<open>ObjectId(s)\<close> on a \<open>str\<close> demands \<open>len(s) == 24\<close> and then calls \<open>bytes.fromhex(s)\<close>,
  which skips ASCII white space between two-digit groups and raises on anything else;
  \<open>str(oid)\<close> is the lower-case hexadecimal rendering of the bytes.
\<close>

datatype ObjectId = ObjectId (binary: "nat list")

definition hexval :: "char \<Rightarrow> nat option" where
  "hexval c =
     (let n = (of_char c :: nat) in
      if 48 \<le> n \<and> n \<le> 57 then Some (n - 48)
      else if 97 \<le> n \<and> n \<le> 102 then Some (n - 87)
      else if 65 \<le> n \<and> n \<le> 70 then Some (n - 55)
      else None)"

definition isspace :: "char \<Rightarrow> bool" where
  "isspace c = (let n = (of_char c :: nat) in n = 32 \<or> (9 \<le> n \<and> n \<le> 13))"

fun fromhex :: "string \<Rightarrow> nat list option" where
  "fromhex [] = Some []"
| "fromhex (c # cs) =
     (if isspace c then fromhex cs
      else (case cs of
              [] \<Rightarrow> None
            | d # ds \<Rightarrow>
                (case (hexval c, hexval d) of
                   (Some hi, Some lo) \<Rightarrow> map_option ((#) (16 * hi + lo)) (fromhex ds)
                 | _ \<Rightarrow> None)))"

definition ObjectId_of_str :: "string \<Rightarrow> ObjectId option" where
  "ObjectId_of_str s =
     (if length s = 24 then map_option ObjectId (fromhex s) else None)"

definition hexdigit :: "nat \<Rightarrow> char" where
  "hexdigit n = ''0123456789abcdef'' ! (n mod 16)"

definition hexlify :: "nat list \<Rightarrow> string" where
  "hexlify bs = concat (map (\<lambda>b. [hexdigit (b div 16), hexdigit b]) bs)"

definition str_of_ObjectId :: "ObjectId \<Rightarrow> string" where
  "str_of_ObjectId oid = hexlify (binary oid)"

text \<open>
  A stored document is a dictionary. Its \<open>_id\<close> entry, which holds an \<open>ObjectId\<close> for every
  document the store hands out, is kept apart from the other entries (\<open>body\<close>);
  \<open>doc_id d = None\<close> is a dictionary without the key \<open>_id\<close>.
\<close>

record doc =
  doc_id :: "ObjectId option"
  body :: "string \<rightharpoonup> pyval"

text \<open>
  The database handle \<open>db\<close>: collections by name (a collection never written to is
  empty) and the server's clock, which \<open>serverStatus\<close> reports as \<open>localTime\<close>.
  The module-level \<open>db\<close> is \<open>None\<close> when no database is configured.
\<close>

record database =
  colls :: "string \<Rightarrow> doc list"
  localTime :: nat

datatype error =
    HTTPException nat string
  | StoreUnavailable

abbreviation InvalidArgument :: error where
  "InvalidArgument \<equiv> HTTPException 400 ''Invalid request id''"

abbreviation NotFound :: error where
  "NotFound \<equiv> HTTPException 404 ''Request not found''"

definition serverStatus :: "database \<Rightarrow> (string \<rightharpoonup> pyval)" where
  "serverStatus d = [''localTime'' \<mapsto> VDatetime (localTime d)]"

definition dict_get :: "(string \<rightharpoonup> pyval) \<Rightarrow> string \<Rightarrow> pyval" where
  "dict_get m k = (case m k of None \<Rightarrow> VNone | Some v \<Rightarrow> v)"

text \<open>
  \<open>update_one({"_id": oid}, {"$set": upd})\<close> changes the first document whose \<open>_id\<close> is
  \<open>oid\<close> and reports how many documents it matched (0 or 1); \<open>find_one({"_id": oid})\<close>
  returns the first such document or \<open>None\<close>.
\<close>

fun update_one :: "doc list \<Rightarrow> ObjectId \<Rightarrow> (string \<rightharpoonup> pyval) \<Rightarrow> nat \<times> doc list" where
  "update_one [] oid upd = (0, [])"
| "update_one (d # ds) oid upd =
     (if doc_id d = Some oid then (1, d\<lparr>body := body d ++ upd\<rparr> # ds)
      else (case update_one ds oid upd of (n, ds') \<Rightarrow> (n, d # ds')))"

definition find_one :: "doc list \<Rightarrow> ObjectId \<Rightarrow> doc option" where
  "find_one ds oid = find (\<lambda>d. doc_id d = Some oid) ds"

text \<open>
  A query dictionary as main.py builds it: a field compared with a value, a field with
  \<open>{"$in": [...]}\<close>, and \<open>"$or"\<close> over a list of sub-dictionaries of field and value.
\<close>

datatype qcond = QEq pyval | QIn "pyval list"

datatype qclause = QField string qcond | QOr "(string \<times> pyval) list list"

type_synonym query = "qclause list"

fun cond_holds :: "qcond \<Rightarrow> pyval option \<Rightarrow> bool" where
  "cond_holds (QEq v) x = (x = Some v)"
| "cond_holds (QIn vs) x =
     (case x of Some (VList xs) \<Rightarrow> list_ex (\<lambda>e. e \<in> set vs) xs | _ \<Rightarrow> False)"

fun clause_holds :: "qclause \<Rightarrow> doc \<Rightarrow> bool" where
  "clause_holds (QField k c) d = cond_holds c (body d k)"
| "clause_holds (QOr alts) d =
     list_ex (\<lambda>alt. list_all (\<lambda>(k, v). body d k = Some v) alt) alts"

definition matches :: "query \<Rightarrow> doc \<Rightarrow> bool" where
  "matches q d = list_all (\<lambda>c. clause_holds c d) q"

text \<open>
  Modelled from the spec: \<open>get_documents\<close> and \<open>create_document\<close> of database.py, which
  is not among the sources. \<open>get_documents\<close> returns, in the order of the store, the
  documents of the collection that the query selects (a field given a value matches by
  exact equality, \<open>$in\<close> by membership of a listed value in the stored list, \<open>$or\<close> when
  one of its alternatives holds), cut to the page size \<open>limit\<close>. \<open>create_document\<close>
  persists the entity as a new document under a newly generated identifier, which the
  driver supplies (\<open>new_id\<close>), and returns that identifier as a string. Both fail
  when no database is configured.
\<close>

definition get_documents ::
  "database option \<Rightarrow> string \<Rightarrow> query \<Rightarrow> nat option \<Rightarrow> error + doc list" where
  "get_documents db collection_name q limit =
     (case db of
        None \<Rightarrow> Inl StoreUnavailable
      | Some d \<Rightarrow>
          (let found = filter (matches q) (colls d collection_name)
           in Inr (case limit of None \<Rightarrow> found | Some n \<Rightarrow> take n found)))"

definition create_document ::
  "database option \<Rightarrow> ObjectId \<Rightarrow> string \<Rightarrow> (string \<times> pyval) list \<Rightarrow>
     (error + string) \<times> database option" where
  "create_document db new_id collection_name data =
     (case db of
        None \<Rightarrow> (Inl StoreUnavailable, db)
      | Some d \<Rightarrow>
          (Inr (str_of_ObjectId new_id),
           Some (d\<lparr>colls := (colls d)
                   (collection_name :=
                      colls d collection_name @ [\<lparr>doc_id = Some new_id, body = map_of data\<rparr>])\<rparr>)))"

section \<open>Validated request bodies\<close>

text \<open>
  A request body after JSON parsing.
\<close>

datatype json =
    JNull
  | JBool bool
  | JNum rat
  | JStr string
  | JList "json list"
  | JObj "(string \<times> json) list"

text \<open>
  The field types that schemas.py declares. \<open>TStr lo hi\<close> is \<open>str\<close> with the optional
  \<open>min_length\<close> and \<open>max_length\<close> of its \<open>Field\<close>; \<open>TFloat lo hi\<close> is \<open>float\<close> with the optional
  \<open>ge\<close> and \<open>le\<close>. A field is its name, its type and its default, \<open>None\<close> for a required
  field (\<open>Field(...)\<close> or a bare annotation).
\<close>

datatype ftype =
    TStr "nat option" "nat option"
  | TLiteral "string list"
  | TBool
  | TFloat "rat option" "rat option"
  | TEmailStr
  | TDatetime
  | TList ftype
  | TOptional ftype

type_synonym field = "string \<times> ftype \<times> pyval option"

text \<open>
  What pydantic delegates to parsers outside this repository: the e-mail validator
  behind \<open>EmailStr\<close>, the reading of a number out of a string, and the reading of a
  \<open>datetime\<close>. They are parameters of the validator.
\<close>

record parsers =
  email_validate :: "string \<Rightarrow> string option"
  float_of_str :: "string \<Rightarrow> rat option"
  datetime_parse :: "json \<Rightarrow> nat option"

text \<open>\<open>len\<close> of a \<open>str\<close> counts code points: the bytes that are not UTF-8 continuation bytes.\<close>

definition py_len :: "string \<Rightarrow> nat" where
  "py_len s = length (filter (\<lambda>c. \<not> (128 \<le> (of_char c :: nat) \<and> (of_char c :: nat) < 192)) s)"

definition ascii_lower :: "char \<Rightarrow> char" where
  "ascii_lower c =
     (let n = (of_char c :: nat) in if 65 \<le> n \<and> n \<le> 90 then char_of (n + 32) else c)"

definition str_as_bool :: "string \<Rightarrow> bool option" where
  "str_as_bool s =
     (let t = map ascii_lower s in
      if t \<in> set [''0'', ''off'', ''f'', ''false'', ''n'', ''no''] then Some False
      else if t \<in> set [''1'', ''on'', ''t'', ''true'', ''y'', ''yes''] then Some True
      else None)"

definition below_min :: "nat option \<Rightarrow> nat \<Rightarrow> bool" where
  "below_min lo n = (case lo of None \<Rightarrow> False | Some m \<Rightarrow> n < m)"

definition above_max :: "nat option \<Rightarrow> nat \<Rightarrow> bool" where
  "above_max hi n = (case hi of None \<Rightarrow> False | Some m \<Rightarrow> m < n)"

definition collect_results :: "(string list + pyval) list \<Rightarrow> string list + pyval list" where
  "collect_results rs =
     (let errs = concat (map (\<lambda>r. case r of Inl es \<Rightarrow> es | Inr _ \<Rightarrow> []) rs) in
      if errs = [] then Inr (concat (map (\<lambda>r. case r of Inl _ \<Rightarrow> [] | Inr v \<Rightarrow> [v]) rs))
      else Inl errs)"

text \<open>
  Validation of one value against a field type, in pydantic's lax mode on JSON input:
  the validated value, or the types of the errors found.
\<close>

fun validate_type :: "parsers \<Rightarrow> ftype \<Rightarrow> json \<Rightarrow> string list + pyval" where
  "validate_type P (TStr lo hi) j =
     (case j of
        JStr s \<Rightarrow>
          (if below_min lo (py_len s) then Inl [''string_too_short'']
           else if above_max hi (py_len s) then Inl [''string_too_long'']
           else Inr (VStr s))
      | _ \<Rightarrow> Inl [''string_type''])"
| "validate_type P (TLiteral ls) j =
     (case j of
        JStr s \<Rightarrow> (if s \<in> set ls then Inr (VStr s) else Inl [''literal_error''])
      | _ \<Rightarrow> Inl [''literal_error''])"
| "validate_type P TBool j =
     (case j of
        JBool b \<Rightarrow> Inr (VBool b)
      | JNum r \<Rightarrow>
          (if r = 0 then Inr (VBool False) else if r = 1 then Inr (VBool True)
           else Inl [''bool_parsing''])
      | JStr s \<Rightarrow>
          (case str_as_bool s of None \<Rightarrow> Inl [''bool_parsing''] | Some b \<Rightarrow> Inr (VBool b))
      | _ \<Rightarrow> Inl [''bool_type''])"
| "validate_type P (TFloat lo hi) j =
     (case (case j of
              JNum r \<Rightarrow> Inr r
            | JBool b \<Rightarrow> Inr (if b then 1 else 0)
            | JStr s \<Rightarrow> (case float_of_str P s of None \<Rightarrow> Inl [''float_parsing''] | Some r \<Rightarrow> Inr r)
            | _ \<Rightarrow> Inl [''float_type'']) of
        Inl es \<Rightarrow> Inl es
      | Inr r \<Rightarrow>
          (if (case lo of None \<Rightarrow> False | Some m \<Rightarrow> r < m) then Inl [''greater_than_equal'']
           else if (case hi of None \<Rightarrow> False | Some m \<Rightarrow> m < r) then Inl [''less_than_equal'']
           else Inr (VNum r)))"
| "validate_type P TEmailStr j =
     (case j of
        JStr s \<Rightarrow> (case email_validate P s of None \<Rightarrow> Inl [''value_error''] | Some e \<Rightarrow> Inr (VStr e))
      | _ \<Rightarrow> Inl [''string_type''])"
| "validate_type P TDatetime j =
     (case datetime_parse P j of None \<Rightarrow> Inl [''datetime_type''] | Some t \<Rightarrow> Inr (VDatetime t))"
| "validate_type P (TList t) j =
     (case j of
        JList js \<Rightarrow>
          (case collect_results (map (validate_type P t) js) of
             Inl es \<Rightarrow> Inl es
           | Inr vs \<Rightarrow> Inr (VList vs))
      | _ \<Rightarrow> Inl [''list_type''])"
| "validate_type P (TOptional t) j =
     (case j of JNull \<Rightarrow> Inr VNone | _ \<Rightarrow> validate_type P t j)"

text \<open>
  An instance of a pydantic model: the value of every declared field, in declaration
  order, and the names of the fields the caller supplied (\<open>model_fields_set\<close>).
\<close>

record model =
  field_values :: "(string \<times> pyval) list"
  model_fields_set :: "string list"

text \<open>
  Validation of a body against a model: every field is looked at, a missing field takes
  its default or is reported \<open>missing\<close>, keys that the model does not declare are
  ignored, and every error is listed with the name of its field.
\<close>

fun validate_fields ::
  "parsers \<Rightarrow> field list \<Rightarrow> (string \<rightharpoonup> json) \<Rightarrow>
     (string \<times> string) list \<times> (string \<times> pyval) list \<times> string list" where
  "validate_fields P [] inp = ([], [], [])"
| "validate_fields P ((name, t, dflt) # fs) inp =
     (case validate_fields P fs inp of
        (errs, vals, given) \<Rightarrow>
          (case inp name of
             None \<Rightarrow>
               (case dflt of
                  None \<Rightarrow> ((name, ''missing'') # errs, vals, given)
                | Some v \<Rightarrow> (errs, (name, v) # vals, given))
           | Some j \<Rightarrow>
               (case validate_type P t j of
                  Inl es \<Rightarrow> (map (Pair name) es @ errs, vals, given)
                | Inr v \<Rightarrow> (errs, (name, v) # vals, name # given))))"

definition validate_model ::
  "parsers \<Rightarrow> field list \<Rightarrow> (string \<rightharpoonup> json) \<Rightarrow> (string \<times> string) list + model" where
  "validate_model P schema inp =
     (case validate_fields P schema inp of
        (errs, vals, given) \<Rightarrow>
          (if errs = [] then Inr \<lparr>field_values = vals, model_fields_set = given\<rparr> else Inl errs))"

subsection \<open>The models of schemas.py\<close>

definition status_values :: "string list" where
  "status_values = [''pendiente'', ''asignado'', ''en_ruta'', ''entregado'', ''cancelado'']"

definition TransportUser :: "field list" where
  "TransportUser =
     [(''role'', TLiteral [''cliente'', ''transportista''], None),
      (''name'', TStr (Some 2) (Some 120), None),
      (''email'', TOptional TEmailStr, Some VNone),
      (''phone'', TStr (Some 7) (Some 20), None),
      (''province'', TOptional (TStr None None), Some VNone),
      (''vehicle_types'', TOptional (TList (TStr None None)), Some VNone),
      (''whatsapp_number'', TOptional (TStr None None), Some VNone),
      (''rating'', TOptional (TFloat (Some 0) (Some 5)), Some VNone),
      (''is_active'', TBool, Some (VBool True))]"

definition TransportRequest :: "field list" where
  "TransportRequest =
     [(''customer_id'', TOptional (TStr None None), Some VNone),
      (''pickup_address'', TStr None None, None),
      (''pickup_city'', TStr None None, None),
      (''dropoff_address'', TStr None None, None),
      (''dropoff_city'', TStr None None, None),
      (''date_iso'', TStr None None, None),
      (''item_type'', TStr None None, None),
      (''size'', TStr None None, None),
      (''notes'', TOptional (TStr None None), Some VNone),
      (''whatsapp_number'', TOptional (TStr None None), Some VNone),
      (''status'', TLiteral status_values, Some (VStr ''pendiente''))]"

definition StatusUpdate :: "field list" where
  "StatusUpdate =
     [(''status'', TLiteral status_values, None),
      (''last_location'', TOptional (TStr None None), Some VNone),
      (''updated_by'', TOptional (TStr None None), Some VNone),
      (''timestamp'', TOptional TDatetime, Some VNone)]"

definition model_dump :: "model \<Rightarrow> (string \<times> pyval) list" where
  "model_dump m = field_values m"

definition model_dump_exclude_unset :: "model \<Rightarrow> (string \<times> pyval) list" where
  "model_dump_exclude_unset m = filter (\<lambda>(k, v). k \<in> set (model_fields_set m)) (field_values m)"

section \<open>The request handlers of main.py\<close>

definition to_str_id :: "doc \<Rightarrow> doc" where
  "to_str_id d =
     (case doc_id d of
        None \<Rightarrow> d
      | Some oid \<Rightarrow> d\<lparr>doc_id := None, body := (body d)(''id'' \<mapsto> VStr (str_of_ObjectId oid))\<rparr>)"

definition create_user ::
  "database option \<Rightarrow> ObjectId \<Rightarrow> model \<Rightarrow> (error + string) \<times> database option" where
  "create_user db new_id user = create_document db new_id ''transportuser'' (model_dump user)"

definition list_transportistas ::
  "database option \<Rightarrow> string option \<Rightarrow> string option \<Rightarrow> error + doc list" where
  "list_transportistas db province vehicle_type =
     (let query =
        (case province of
           None \<Rightarrow> []
         | Some p \<Rightarrow> if p \<noteq> [] then [QField ''province'' (QEq (VStr p))] else []) @
        (case vehicle_type of
           None \<Rightarrow> []
         | Some v \<Rightarrow> if v \<noteq> [] then [QField ''vehicle_types'' (QIn [VStr v])] else [])
      in case get_documents db ''transportuser'' query (Some 50) of
           Inl e \<Rightarrow> Inl e
         | Inr docs \<Rightarrow>
             Inr (map to_str_id
                    (filter (\<lambda>d. body d ''role'' = Some (VStr ''transportista'')) docs)))"

definition create_request ::
  "database option \<Rightarrow> ObjectId \<Rightarrow> model \<Rightarrow> (error + string) \<times> database option" where
  "create_request db new_id req = create_document db new_id ''transportrequest'' (model_dump req)"

definition list_requests ::
  "database option \<Rightarrow> string option \<Rightarrow> string option \<Rightarrow> error + doc list" where
  "list_requests db status city =
     (let query =
        (case status of
           None \<Rightarrow> []
         | Some s \<Rightarrow> if s \<noteq> [] then [QField ''status'' (QEq (VStr s))] else []) @
        (case city of
           None \<Rightarrow> []
         | Some c \<Rightarrow>
             if c \<noteq> [] then [QOr [[(''pickup_city'', VStr c)], [(''dropoff_city'', VStr c)]]]
             else [])
      in case get_documents db ''transportrequest'' query (Some 100) of
           Inl e \<Rightarrow> Inl e
         | Inr docs \<Rightarrow> Inr (map to_str_id docs))"

definition update_doc :: "database \<Rightarrow> model \<Rightarrow> (string \<rightharpoonup> pyval)" where
  "update_doc d update =
     (map_of (filter (\<lambda>(k, v). v \<noteq> VNone) (model_dump_exclude_unset update)))
       (''updated_at'' \<mapsto> dict_get (serverStatus d) ''localTime'')"

definition update_request_status ::
  "database option \<Rightarrow> string \<Rightarrow> model \<Rightarrow> (error + doc option) \<times> database option" where
  "update_request_status db request_id update =
     (case db of
        None \<Rightarrow> (Inl (HTTPException 500 ''DB not configured''), db)
      | Some d \<Rightarrow>
          (case ObjectId_of_str request_id of
             None \<Rightarrow> (Inl (HTTPException 400 ''Invalid request id''), db)
           | Some oid \<Rightarrow>
               (case update_one (colls d ''transportrequest'') oid (update_doc d update) of
                  (matched_count, ds') \<Rightarrow>
                    (let d' = d\<lparr>colls := (colls d)(''transportrequest'' := ds')\<rparr>
                     in if matched_count = 0
                        then (Inl (HTTPException 404 ''Request not found''), Some d')
                        else (Inr (map_option to_str_id (find_one (colls d' ''transportrequest'') oid)),
                              Some d')))))"

text \<open>
  \<open>s.replace(c, "")\<close> for a one-character \<open>c\<close>, and \<open>urllib.parse.quote\<close> with its default
  \<open>safe="/"\<close>: letters, digits and \<open>_.-~/\<close> stay, every other byte of the UTF-8 encoding
  becomes \<open>%XX\<close> in upper-case hexadecimal.
\<close>

definition replace_del :: "char \<Rightarrow> string \<Rightarrow> string" where
  "replace_del c s = filter (\<lambda>x. x \<noteq> c) s"

definition quote_safe :: "char \<Rightarrow> bool" where
  "quote_safe c =
     (let n = (of_char c :: nat) in
      (65 \<le> n \<and> n \<le> 90) \<or> (97 \<le> n \<and> n \<le> 122) \<or> (48 \<le> n \<and> n \<le> 57) \<or> c \<in> set ''_.-~/'')"

definition HEXDIGIT :: "nat \<Rightarrow> char" where
  "HEXDIGIT n = ''0123456789ABCDEF'' ! (n mod 16)"

definition quote_byte :: "char \<Rightarrow> string" where
  "quote_byte c =
     (if quote_safe c then [c]
      else [CHR ''%'', HEXDIGIT ((of_char c :: nat) div 16), HEXDIGIT (of_char c)])"

definition quote :: "string \<Rightarrow> string" where
  "quote s = concat (map quote_byte s)"

definition whatsapp_text :: "string \<Rightarrow> string \<Rightarrow> string \<Rightarrow> string \<Rightarrow> string \<Rightarrow> string" where
  "whatsapp_text name item pickup dropoff date =
     ''Hola, soy '' @ name @ ''. Quiero enviar '' @ item @ '' de '' @ pickup @ '' a '' @ dropoff @
     '' el '' @ date @ ''. '' @ [CHR 0xC2, CHR 0xBF] @ ''Disponibilidad?''"

definition whatsapp_link ::
  "string \<Rightarrow> string \<Rightarrow> string \<Rightarrow> string \<Rightarrow> string \<Rightarrow> string \<Rightarrow> string" where
  "whatsapp_link name phone pickup dropoff date item =
     (let base = ''https://wa.me/'' @ replace_del CHR '' '' (replace_del CHR ''+'' phone);
          text = whatsapp_text name item pickup dropoff date
      in base @ ''?text='' @ quote text)"


section \<open>Reading the store, and concrete data\<close>

definition stored_request :: "database option \<Rightarrow> ObjectId \<Rightarrow> doc option" where
  "stored_request db oid =
     (case db of None \<Rightarrow> None | Some d \<Rightarrow> find_one (colls d ''transportrequest'') oid)"

definition field_of :: "doc option \<Rightarrow> string \<Rightarrow> pyval option" where
  "field_of r k = (case r of None \<Rightarrow> None | Some d \<Rightarrow> body d k)"

definition returned_doc :: "error + doc option \<Rightarrow> doc option" where
  "returned_doc r = (case r of Inl e \<Rightarrow> None | Inr x \<Rightarrow> x)"

definition returned_ids :: "error + doc list \<Rightarrow> pyval option list" where
  "returned_ids r = (case r of Inl e \<Rightarrow> [] | Inr ds \<Rightarrow> map (\<lambda>d. body d ''id'') ds)"

text \<open>A field of the payload that the caller supplied with a value other than \<open>null\<close>.\<close>

definition supplied :: "model \<Rightarrow> string \<Rightarrow> bool" where
  "supplied m k =
     (k \<in> set (model_fields_set m) \<and>
      (case map_of (field_values m) k of None \<Rightarrow> False | Some v \<Rightarrow> v \<noteq> VNone))"

definition example_oid :: ObjectId where
  "example_oid = ObjectId [101, 240, 161, 178, 195, 212, 229, 246, 1, 35, 69, 103]"

definition example_request :: doc where
  "example_request =
     \<lparr>doc_id = Some example_oid,
      body = map_of
        [(''customer_id'', VNone),
         (''pickup_address'', VStr ''Calle A''),
         (''pickup_city'', VStr ''Madrid''),
         (''dropoff_address'', VStr ''Calle B''),
         (''dropoff_city'', VStr ''Valencia''),
         (''date_iso'', VStr ''2024-06-01T10:00:00Z''),
         (''item_type'', VStr ''muebles''),
         (''size'', VStr ''grande''),
         (''notes'', VNone),
         (''whatsapp_number'', VNone),
         (''status'', VStr ''pendiente''),
         (''last_location'', VStr ''Zaragoza''),
         (''updated_by'', VStr ''u1'')]\<rparr>"

definition example_db :: database where
  "example_db = \<lparr>colls = (\<lambda>c. if c = ''transportrequest'' then [example_request] else []),
                  localTime = 1700\<rparr>"

definition only_status :: model where
  "only_status =
     \<lparr>field_values =
        [(''status'', VStr ''asignado''), (''last_location'', VNone), (''updated_by'', VNone),
         (''timestamp'', VNone)],
      model_fields_set = [''status'']\<rparr>"

definition status_and_timestamp :: model where
  "status_and_timestamp =
     \<lparr>field_values =
        [(''status'', VStr ''en_ruta''), (''last_location'', VNone), (''updated_by'', VNone),
         (''timestamp'', VDatetime 5)],
      model_fields_set = [''status'', ''timestamp'']\<rparr>"

definition example_parsers :: parsers where
  "example_parsers =
     \<lparr>email_validate = Some, float_of_str = (\<lambda>s. None), datetime_parse = (\<lambda>j. None)\<rparr>"


section \<open>The store under \<open>update_one\<close> and \<open>find_one\<close>\<close>

lemma update_one_nomatch: "fst (update_one ds oid upd) = 0 \<Longrightarrow> snd (update_one ds oid upd) = ds"
  by (induction ds) (auto split: prod.splits if_splits)

lemma update_one_matched: "fst (update_one ds oid upd) = 0 \<longleftrightarrow> find_one ds oid = None"
  by (induction ds) (auto simp: find_one_def split: prod.splits if_splits)

lemma find_one_None_iff: "find_one ds oid = None \<longleftrightarrow> (\<forall>r\<in>set ds. doc_id r \<noteq> Some oid)"
  by (auto simp: find_one_def find_None_iff)

lemma update_one_find:
  "find_one ds oid = Some d0 \<Longrightarrow>
     find_one (snd (update_one ds oid upd)) oid = Some (d0\<lparr>body := body d0 ++ upd\<rparr>)"
  by (induction ds) (auto simp: find_one_def split: prod.splits if_splits)

lemma update_one_find_other:
  "oid' \<noteq> oid \<Longrightarrow> find_one (snd (update_one ds oid upd)) oid' = find_one ds oid'"
  by (induction ds) (auto simp: find_one_def split: prod.splits if_splits)

text \<open>The three ways \<open>update_request_status\<close> ends once a database is configured.\<close>

lemma update_request_status_invalid:
  "ObjectId_of_str rid = None \<Longrightarrow>
     update_request_status (Some d) rid u = (Inl InvalidArgument, Some d)"
  by (simp add: update_request_status_def)

lemma update_request_status_notfound:
  assumes "ObjectId_of_str rid = Some oid" "find_one (colls d ''transportrequest'') oid = None"
  shows "update_request_status (Some d) rid u = (Inl NotFound, Some d)"
proof -
  obtain n ds' where eq: "update_one (colls d ''transportrequest'') oid (update_doc d u) = (n, ds')"
    by (cases "update_one (colls d ''transportrequest'') oid (update_doc d u)") auto
  have "n = 0"
    using assms(2) update_one_matched[of "colls d ''transportrequest''" oid "update_doc d u"] eq by simp
  moreover have "ds' = colls d ''transportrequest''"
    using update_one_nomatch[of "colls d ''transportrequest''" oid "update_doc d u"] eq \<open>n = 0\<close> by simp
  ultimately show ?thesis using assms(1) eq
    by (simp add: update_request_status_def)
qed

lemma update_request_status_found:
  assumes "ObjectId_of_str rid = Some oid" "find_one (colls d ''transportrequest'') oid = Some d0"
  shows "update_request_status (Some d) rid u =
     (Inr (Some (to_str_id (d0\<lparr>body := body d0 ++ update_doc d u\<rparr>))),
      Some (d\<lparr>colls := (colls d)(''transportrequest'' :=
                snd (update_one (colls d ''transportrequest'') oid (update_doc d u)))\<rparr>))"
proof -
  obtain n ds' where eq: "update_one (colls d ''transportrequest'') oid (update_doc d u) = (n, ds')"
    by (cases "update_one (colls d ''transportrequest'') oid (update_doc d u)") auto
  have "n \<noteq> 0"
    using assms(2) update_one_matched[of "colls d ''transportrequest''" oid "update_doc d u"] eq by simp
  moreover have "find_one ds' oid = Some (d0\<lparr>body := body d0 ++ update_doc d u\<rparr>)"
    using update_one_find[OF assms(2), of "update_doc d u"] eq by simp
  ultimately show ?thesis using assms(1) eq
    by (simp add: update_request_status_def)
qed

lemma update_request_status_no_db:
  "update_request_status None rid u = (Inl (HTTPException 500 ''DB not configured''), None)"
  by (simp add: update_request_status_def)

lemma example_oid_parsed: "ObjectId_of_str ''65f0a1b2c3d4e5f601234567'' = Some example_oid"
  by (simp add: ObjectId_of_str_def hexval_def isspace_def example_oid_def)

lemma zero_oid_parsed:
  "ObjectId_of_str ''000000000000000000000000'' = Some (ObjectId [0, 0, 0, 0, 0, 0, 0, 0, 0, 0, 0, 0])"
  by (simp add: ObjectId_of_str_def hexval_def isspace_def)

lemma to_str_id_id: "doc_id r = Some oid \<Longrightarrow> body (to_str_id r) ''id'' = Some (VStr (str_of_ObjectId oid)) \<and> doc_id (to_str_id r) = None"
  by (simp add: to_str_id_def)

lemma to_str_id_body: "k \<noteq> ''id'' \<Longrightarrow> body (to_str_id r) k = body r k"
  by (simp add: to_str_id_def split: option.splits)

lemma find_one_SomeD: "find_one ds oid = Some r \<Longrightarrow> r \<in> set ds \<and> doc_id r = Some oid"
  by (auto simp: find_one_def find_Some_iff)

lemma example_update_result: "update_request_status (Some example_db) ''65f0a1b2c3d4e5f601234567'' m
  = (Inr (Some (to_str_id (example_request\<lparr>body := body example_request ++ update_doc example_db m\<rparr>))),
      Some (example_db\<lparr>colls := (colls example_db)(''transportrequest'' :=
                [example_request\<lparr>body := body example_request ++ update_doc example_db m\<rparr>])\<rparr>))"
proof -
  have f: "find_one (colls example_db ''transportrequest'') example_oid = Some example_request"
    by (simp add: find_one_def example_db_def example_request_def)
  have u: "update_one (colls example_db ''transportrequest'') example_oid x = (1, [example_request\<lparr>body := body example_request ++ x\<rparr>])" for x
    by (simp add: example_db_def example_request_def)
  show ?thesis
    by (simp add: update_request_status_found[OF example_oid_parsed f] u)
qed

lemma example_oid_str: "str_of_ObjectId example_oid = ''65f0a1b2c3d4e5f601234567''"
  by (simp add: str_of_ObjectId_def example_oid_def hexlify_def hexdigit_def)

section \<open>Validated models and the update document\<close>

lemma map_of_filter_distinct:
  "distinct (map fst xs) \<Longrightarrow>
     map_of (filter Q xs) k =
       (case map_of xs k of None \<Rightarrow> None | Some v \<Rightarrow> if Q (k, v) then Some v else None)"
proof (induction xs)
  case Nil
  then show ?case by simp
next
  case (Cons x xs)
  obtain a b where x: "x = (a, b)" by (cases x)
  have notin: "a = k \<Longrightarrow> map_of xs k = None"
    using Cons.prems x by (auto simp: map_of_eq_None_iff)
  have "map_of (filter Q xs) k = None" if "a = k"
    using notin[OF that] by (simp add: map_of_eq_None_iff image_iff) 
  then show ?case using Cons x by (auto split: option.splits)
qed

lemma validate_fields_keys_Cons:
  "fst ` set (fst (snd (validate_fields P ((name, t, dflt) # fs) inp)))
     \<subseteq> insert name (fst ` set (fst (snd (validate_fields P fs inp))))"
  by (cases "validate_fields P fs inp") (auto split: option.splits sum.splits)

lemma validate_fields_keys:
  "fst ` set (fst (snd (validate_fields P fs inp))) \<subseteq> fst ` set fs"
proof (induction fs)
  case Nil
  show ?case by simp
next
  case (Cons f fs)
  obtain name t dflt where f: "f = (name, t, dflt)" by (cases f)
  have "fst ` set (fst (snd (validate_fields P (f # fs) inp)))
      \<subseteq> insert name (fst ` set (fst (snd (validate_fields P fs inp))))"
    using validate_fields_keys_Cons[of P name t dflt fs inp] unfolding f .
  also have "\<dots> \<subseteq> insert name (fst ` set fs)" using Cons.IH by blast
  finally show ?case by (simp add: f)
qed

lemma validate_fields_distinct:
  "distinct (map fst fs) \<Longrightarrow> distinct (map fst (fst (snd (validate_fields P fs inp))))"
proof (induction fs)
  case Nil
  then show ?case by simp
next
  case (Cons f fs)
  obtain name t dflt where f: "f = (name, t, dflt)" by (cases f)
  obtain errs vals given where r: "validate_fields P fs inp = (errs, vals, given)"
    by (cases "validate_fields P fs inp")
  have notin: "name \<notin> fst ` set vals"
    using Cons.prems f r validate_fields_keys[of P fs inp] by auto
  have IH: "distinct (map fst vals)" using Cons r by simp
  show ?case using notin IH r unfolding f
    by (simp split: option.splits sum.splits)
qed

lemma validate_model_distinct:
  "validate_model P schema inp = Inr m \<Longrightarrow> distinct (map fst schema) \<Longrightarrow>
     distinct (map fst (field_values m))"
  using validate_fields_distinct[of schema P inp]
  by (auto simp: validate_model_def split: prod.splits if_splits)


lemma update_doc_at:
  assumes "distinct (map fst (field_values u))"
  shows "update_doc d u k =
     (if k = ''updated_at'' then Some (VDatetime (localTime d))
      else if supplied u k then map_of (field_values u) k else None)"
proof -
  have "distinct (map fst (model_dump_exclude_unset u))"
    using assms by (simp add: model_dump_exclude_unset_def distinct_map_filter)
  then show ?thesis using assms
    by (auto simp: update_doc_def map_of_filter_distinct model_dump_exclude_unset_def
        supplied_def serverStatus_def dict_get_def split: option.splits)
qed

lemma update_doc_unset:
  "k \<notin> set (model_fields_set u) \<Longrightarrow> k \<noteq> ''updated_at'' \<Longrightarrow> update_doc d u k = None"
  by (auto simp: update_doc_def model_dump_exclude_unset_def map_of_eq_None_iff)

lemma update_doc_updated_at: "update_doc d u ''updated_at'' = Some (VDatetime (localTime d))"
  by (simp add: update_doc_def serverStatus_def dict_get_def)

lemma StatusUpdate_distinct: "distinct (map fst StatusUpdate)"
  by (simp add: StatusUpdate_def)

lemma update_request_status_succeeded:
  assumes "\<not> isl (fst (update_request_status (Some d) rid u))"
  obtains oid d0 where "ObjectId_of_str rid = Some oid"
    "find_one (colls d ''transportrequest'') oid = Some d0"
proof (cases "ObjectId_of_str rid")
  case None
  then show ?thesis using assms by (simp add: update_request_status_invalid)
next
  case oid: (Some oid)
  show ?thesis
  proof (cases "find_one (colls d ''transportrequest'') oid")
    case None
    then show ?thesis using assms oid by (simp add: update_request_status_notfound)
  next
    case (Some d0)
    then show ?thesis using that oid by blast
  qed
qed

lemma stored_after_update:
  assumes "ObjectId_of_str rid = Some oid" "find_one (colls d ''transportrequest'') oid = Some d0"
  shows "stored_request (snd (update_request_status (Some d) rid u)) oid
     = Some (d0\<lparr>body := body d0 ++ update_doc d u\<rparr>)"
  using update_one_find[OF assms(2), of "update_doc d u"]
  by (simp add: update_request_status_found[OF assms] stored_request_def)

lemma only_status_validated:
  "validate_model example_parsers StatusUpdate [''status'' \<mapsto> JStr ''asignado''] = Inr only_status"
  by (simp add: validate_model_def StatusUpdate_def status_values_def only_status_def)

lemma example_stored: "stored_request (Some example_db) example_oid = Some example_request"
  by (simp add: stored_request_def find_one_def example_db_def example_request_def)

lemma example_stored_after:
  "stored_request (snd (update_request_status (Some example_db) ''65f0a1b2c3d4e5f601234567'' m)) example_oid
     = Some (example_request\<lparr>body := body example_request ++ update_doc example_db m\<rparr>)"
  by (simp add: example_update_result stored_request_def find_one_def example_request_def)

section \<open>What validation reports and returns\<close>

lemma validate_fields_errs_Cons:
  "fst (validate_fields P ((name, t, dflt) # fs) inp) =
     (case inp name of
        None \<Rightarrow> (case dflt of None \<Rightarrow> [(name, ''missing'')] | Some v \<Rightarrow> [])
      | Some j \<Rightarrow> (case validate_type P t j of Inl es \<Rightarrow> map (Pair name) es | Inr v \<Rightarrow> []))
     @ fst (validate_fields P fs inp)"
  by (cases "validate_fields P fs inp") (auto split: option.splits sum.splits)

lemma validate_fields_vals_Cons:
  "fst (snd (validate_fields P ((name, t, dflt) # fs) inp)) =
     (case inp name of
        None \<Rightarrow> (case dflt of None \<Rightarrow> [] | Some v \<Rightarrow> [(name, v)])
      | Some j \<Rightarrow> (case validate_type P t j of Inl es \<Rightarrow> [] | Inr v \<Rightarrow> [(name, v)]))
     @ fst (snd (validate_fields P fs inp))"
  by (cases "validate_fields P fs inp") (auto split: option.splits sum.splits)

lemma validate_fields_given_Cons:
  "snd (snd (validate_fields P ((name, t, dflt) # fs) inp)) =
     (case inp name of
        None \<Rightarrow> []
      | Some j \<Rightarrow> (case validate_type P t j of Inl es \<Rightarrow> [] | Inr v \<Rightarrow> [name]))
     @ snd (snd (validate_fields P fs inp))"
  by (cases "validate_fields P fs inp") (auto split: option.splits sum.splits)

lemma validate_fields_given_keys:
  "set (snd (snd (validate_fields P fs inp))) \<subseteq> fst ` set fs"
proof (induction fs)
  case Nil
  show ?case by simp
next
  case (Cons f fs)
  obtain name t dflt where f: "f = (name, t, dflt)" by (cases f)
  have "set (snd (snd (validate_fields P (f # fs) inp)))
      \<subseteq> insert name (set (snd (snd (validate_fields P fs inp))))"
    unfolding f validate_fields_given_Cons by (auto split: option.splits sum.splits)
  also have "\<dots> \<subseteq> insert name (fst ` set fs)" using Cons.IH by blast
  finally show ?case by (simp add: f)
qed

lemma validate_fields_missing:
  "(name, t, None) \<in> set fs \<Longrightarrow> inp name = None \<Longrightarrow>
     (name, ''missing'') \<in> set (fst (validate_fields P fs inp))"
proof (induction fs)
  case Nil
  then show ?case by simp
next
  case (Cons f fs)
  obtain n0 t0 d0 where f: "f = (n0, t0, d0)" by (cases f)
  show ?case
  proof (cases "f = (name, t, None)")
    case True
    then show ?thesis using Cons.prems(2)
      by (simp add: validate_fields_errs_Cons del: validate_fields.simps)
  next
    case False
    then have "(name, ''missing'') \<in> set (fst (validate_fields P fs inp))"
      using Cons by auto
    then show ?thesis unfolding f validate_fields_errs_Cons by simp
  qed
qed

lemma validate_fields_type_error:
  "(name, t, dflt) \<in> set fs \<Longrightarrow> inp name = Some j \<Longrightarrow> validate_type P t j = Inl es \<Longrightarrow>
     e \<in> set es \<Longrightarrow> (name, e) \<in> set (fst (validate_fields P fs inp))"
proof (induction fs)
  case Nil
  then show ?case by simp
next
  case (Cons f fs)
  obtain n0 t0 d0 where f: "f = (n0, t0, d0)" by (cases f)
  show ?case
  proof (cases "f = (name, t, dflt)")
    case True
    then show ?thesis using Cons.prems
      by (simp add: validate_fields_errs_Cons del: validate_fields.simps)
  next
    case False
    then have "(name, e) \<in> set (fst (validate_fields P fs inp))"
      using Cons by auto
    then show ?thesis unfolding f validate_fields_errs_Cons by simp
  qed
qed

lemma validate_model_Inl_iff:
  "validate_model P schema inp = Inl errs \<longleftrightarrow>
     errs = fst (validate_fields P schema inp) \<and> errs \<noteq> []"
  by (cases "validate_fields P schema inp") (auto simp: validate_model_def)

lemma validate_model_Inr_iff:
  "validate_model P schema inp = Inr m \<longleftrightarrow>
     fst (validate_fields P schema inp) = [] \<and>
     field_values m = fst (snd (validate_fields P schema inp)) \<and>
     model_fields_set m = snd (snd (validate_fields P schema inp))"
  by (cases "validate_fields P schema inp") (auto simp: validate_model_def)

lemma validate_model_missing:
  assumes "(name, t, None) \<in> set schema" "inp name = None"
  shows "\<exists>errs. validate_model P schema inp = Inl errs \<and> (name, ''missing'') \<in> set errs"
proof -
  have "(name, ''missing'') \<in> set (fst (validate_fields P schema inp))"
    using assms by (rule validate_fields_missing)
  then show ?thesis by (auto simp: validate_model_Inl_iff)
qed

lemma validate_model_type_error:
  assumes "(name, t, dflt) \<in> set schema" "inp name = Some j" "validate_type P t j = Inl es"
    "e \<in> set es"
  shows "\<exists>errs. validate_model P schema inp = Inl errs \<and> (name, e) \<in> set errs"
proof -
  have "(name, e) \<in> set (fst (validate_fields P schema inp))"
    using assms by (rule validate_fields_type_error)
  then show ?thesis by (auto simp: validate_model_Inl_iff)
qed

lemma collect_results_Inl: "collect_results rs = Inl es \<Longrightarrow> es \<noteq> []"
  by (auto simp: collect_results_def Let_def split: if_splits)

lemma validate_type_errs_nonempty: "validate_type P t j = Inl es \<Longrightarrow> es \<noteq> []"
proof (induction P t j arbitrary: es rule: validate_type.induct)
  case (7 P t j)
  then show ?case
    by (cases j) (auto split: sum.splits dest: collect_results_Inl)
next
  case (8 P t j)
  then show ?case by (cases j) auto
qed (auto split: json.splits if_splits option.splits sum.splits)

text \<open>The value of a field of a validated model.\<close>

lemma validate_fields_value:
  assumes "fst (validate_fields P fs inp) = []" "distinct (map fst fs)" "(name, t, dflt) \<in> set fs"
  shows "(case inp name of
            None \<Rightarrow> dflt \<noteq> None \<and> map_of (fst (snd (validate_fields P fs inp))) name = dflt \<and>
                      name \<notin> set (snd (snd (validate_fields P fs inp)))
          | Some j \<Rightarrow> (\<exists>v. validate_type P t j = Inr v \<and>
                      map_of (fst (snd (validate_fields P fs inp))) name = Some v \<and>
                      name \<in> set (snd (snd (validate_fields P fs inp)))))"
  using assms
proof (induction fs)
  case Nil
  then show ?case by simp
next
  case (Cons f fs)
  obtain n0 t0 d0 where f: "f = (n0, t0, d0)" by (cases f)
  have tl_ok: "fst (validate_fields P fs inp) = []"
    using Cons.prems(1) unfolding f validate_fields_errs_Cons by simp
  show ?case
  proof (cases "n0 = name")
    case True
    have "name \<notin> fst ` set fs" using Cons.prems(2) f True by auto
    then have same: "t0 = t" "d0 = dflt" using Cons.prems(3) f True by (auto simp: image_iff)
    have ng: "name \<notin> set (snd (snd (validate_fields P fs inp)))"
      using validate_fields_given_keys[of P fs inp] \<open>name \<notin> fst ` set fs\<close> by blast
    show ?thesis
      using Cons.prems(1) ng validate_type_errs_nonempty[of P t _ "[]"]
      unfolding f True same validate_fields_errs_Cons
        validate_fields_vals_Cons validate_fields_given_Cons
      by (auto split: option.splits sum.splits)
  next
    case False
    then have mem: "(name, t, dflt) \<in> set fs" using Cons.prems(3) f by auto
    have dist: "distinct (map fst fs)" using Cons.prems(2) by simp
    note IH = Cons.IH[OF tl_ok dist mem]
    show ?thesis
      using IH False unfolding f validate_fields_vals_Cons validate_fields_given_Cons
      by (auto split: option.splits sum.splits)
  qed
qed

lemma validate_model_default:
  assumes "validate_model P schema inp = Inr m" "distinct (map fst schema)"
    "(name, t, dflt) \<in> set schema" "inp name = None"
  shows "map_of (field_values m) name = dflt \<and> dflt \<noteq> None \<and> name \<notin> set (model_fields_set m)"
  using validate_fields_value[of P schema inp name t dflt] assms
  by (simp add: validate_model_Inr_iff)

lemma validate_model_given:
  assumes "validate_model P schema inp = Inr m" "distinct (map fst schema)"
    "(name, t, dflt) \<in> set schema" "inp name = Some j"
  shows "\<exists>v. validate_type P t j = Inr v \<and> map_of (field_values m) name = Some v \<and>
           name \<in> set (model_fields_set m)"
  using validate_fields_value[of P schema inp name t dflt] assms
  by (simp add: validate_model_Inr_iff)

lemma TransportRequest_distinct: "distinct (map fst TransportRequest)"
  by (simp add: TransportRequest_def)

lemma TransportUser_distinct: "distinct (map fst TransportUser)"
  by (simp add: TransportUser_def)

lemma literal_Inr: "validate_type P (TLiteral ls) j = Inr v \<Longrightarrow> \<exists>s. j = JStr s \<and> v = VStr s \<and> s \<in> set ls"
  by (cases j) (auto split: if_splits)

lemma literal_Inl: "j \<notin> JStr ` set ls \<Longrightarrow> validate_type P (TLiteral ls) j = Inl [''literal_error'']"
  by (cases j) auto


section \<open>Failure of a status update leaves the store alone\<close>

text \<open>
  Claim C10. \<open>update_request_status\<close> is atomic on failure: whenever it fails with
  InvalidArgument (status 400, the identifier is malformed) or with NotFound (status
  404, no request has the identifier), the store after the call is the store before it.
\<close>

theorem update_request_status_failure_atomic:
  "fst (update_request_status db rid u) = Inl InvalidArgument \<or>
   fst (update_request_status db rid u) = Inl NotFound \<Longrightarrow>
   snd (update_request_status db rid u) = db"
proof (cases db)
  case None
  then show ?thesis by (simp add: update_request_status_def)
next
  case db: (Some d)
  assume failed: "fst (update_request_status db rid u) = Inl InvalidArgument \<or>
    fst (update_request_status db rid u) = Inl NotFound"
  show ?thesis
  proof (cases "ObjectId_of_str rid")
    case None
    then show ?thesis using db by (simp add: update_request_status_invalid)
  next
    case oid: (Some oid)
    show ?thesis
    proof (cases "find_one (colls d ''transportrequest'') oid")
      case None
      then show ?thesis using oid db by (simp add: update_request_status_notfound)
    next
      case (Some d0)
      then show ?thesis using failed oid db by (simp add: update_request_status_found)
    qed
  qed
qed

theorem update_request_status_failure_atomic_witness:
  "fst (update_request_status (Some example_db) ''000000000000000000000000'' only_status) = Inl NotFound \<and>
   snd (update_request_status (Some example_db) ''000000000000000000000000'' only_status) = Some example_db"
proof -
  have failed: "fst (update_request_status (Some example_db) ''000000000000000000000000'' only_status)
      = Inl NotFound"
    by (simp add: update_request_status_def zero_oid_parsed example_db_def example_request_def
        example_oid_def split: prod.splits)
  from update_request_status_failure_atomic
         [of "Some example_db" "''000000000000000000000000''" only_status] failed
  show ?thesis by simp
qed


section \<open>How a status update ends\<close>

text \<open>
  Claim C2. With a database configured, \<open>update_request_status\<close> fails with
  InvalidArgument (400) if and only if the identifier is not well formed, that is
  \<open>ObjectId\<close> rejects it; it fails with NotFound (404) if and only if the identifier is
  well formed and no stored request carries it; in every other case it succeeds and
  returns the updated document as it is now stored, with \<open>_id\<close> replaced by the public
  \<open>id\<close> string and every other entry as stored.
\<close>

theorem update_request_status_outcomes:
  assumes "db = Some d"
  shows "(fst (update_request_status db rid u) = Inl InvalidArgument \<longleftrightarrow> ObjectId_of_str rid = None) \<and>
    (fst (update_request_status db rid u) = Inl NotFound \<longleftrightarrow>
       (\<exists>oid. ObjectId_of_str rid = Some oid \<and> (\<forall>r\<in>set (colls d ''transportrequest''). doc_id r \<noteq> Some oid))) \<and>
    (fst (update_request_status db rid u) \<noteq> Inl InvalidArgument \<and>
     fst (update_request_status db rid u) \<noteq> Inl NotFound \<longrightarrow>
       (\<exists>oid r. ObjectId_of_str rid = Some oid \<and>
          stored_request (snd (update_request_status db rid u)) oid = Some r \<and>
          (\<exists>d0. stored_request db oid = Some d0 \<and> r = d0\<lparr>body := body d0 ++ update_doc d u\<rparr>) \<and>
          fst (update_request_status db rid u) = Inr (Some (to_str_id r)) \<and>
          doc_id (to_str_id r) = None \<and>
          body (to_str_id r) ''id'' = Some (VStr (str_of_ObjectId oid)) \<and>
          (\<forall>k. k \<noteq> ''id'' \<longrightarrow> body (to_str_id r) k = body r k)))"
proof (cases "ObjectId_of_str rid")
  case None
  then show ?thesis using assms by (simp add: update_request_status_invalid)
next
  case oid: (Some oid)
  show ?thesis
  proof (cases "find_one (colls d ''transportrequest'') oid")
    case None
    then show ?thesis using oid assms
      by (simp add: update_request_status_notfound find_one_None_iff)
  next
    case (Some d0)
    let ?r = "d0\<lparr>body := body d0 ++ update_doc d u\<rparr>"
    have id: "doc_id ?r = Some oid" using find_one_SomeD[OF Some] by simp
    have "\<not> (\<forall>r\<in>set (colls d ''transportrequest''). doc_id r \<noteq> Some oid)"
      using Some by (simp flip: find_one_None_iff)
    moreover have "stored_request (snd (update_request_status db rid u)) oid = Some ?r"
      using assms oid Some update_one_find[OF Some, of "update_doc d u"]
      by (simp add: update_request_status_found stored_request_def)
    moreover have "stored_request db oid = Some d0"
      using assms Some by (simp add: stored_request_def)
    ultimately show ?thesis using oid assms Some to_str_id_id[OF id] to_str_id_body[of _ ?r]
      by (simp add: update_request_status_found)
  qed
qed

theorem update_request_status_outcomes_witness:
  "Some example_db = Some example_db \<and>
   fst (update_request_status (Some example_db) ''65f0a1b2c3d4e5f601234567'' only_status) \<noteq> Inl InvalidArgument \<and>
   fst (update_request_status (Some example_db) ''65f0a1b2c3d4e5f601234567'' only_status) \<noteq> Inl NotFound \<and>
   field_of (returned_doc (fst (update_request_status (Some example_db) ''65f0a1b2c3d4e5f601234567'' only_status))) ''id''
     = Some (VStr ''65f0a1b2c3d4e5f601234567'') \<and>
   field_of (returned_doc (fst (update_request_status (Some example_db) ''65f0a1b2c3d4e5f601234567'' only_status))) ''status''
     = Some (VStr ''asignado'')"
proof -
  have ok: "fst (update_request_status (Some example_db) ''65f0a1b2c3d4e5f601234567'' only_status) \<noteq> Inl InvalidArgument \<and>
   fst (update_request_status (Some example_db) ''65f0a1b2c3d4e5f601234567'' only_status) \<noteq> Inl NotFound"
    by (simp add: example_update_result)
  have st: "field_of (returned_doc (fst (update_request_status (Some example_db) ''65f0a1b2c3d4e5f601234567'' only_status))) ''status''
     = Some (VStr ''asignado'')"
    by (simp add: example_update_result field_of_def returned_doc_def to_str_id_def example_request_def update_doc_def
         model_dump_exclude_unset_def only_status_def map_add_def)
  note s = example_oid_str
  from update_request_status_outcomes[of "Some example_db" example_db "''65f0a1b2c3d4e5f601234567''" only_status] ok
  obtain oid r where "ObjectId_of_str ''65f0a1b2c3d4e5f601234567'' = Some oid"
    "fst (update_request_status (Some example_db) ''65f0a1b2c3d4e5f601234567'' only_status) = Inr (Some (to_str_id r))"
    "body (to_str_id r) ''id'' = Some (VStr (str_of_ObjectId oid))"
    by auto
  then have "field_of (returned_doc (fst (update_request_status (Some example_db) ''65f0a1b2c3d4e5f601234567'' only_status))) ''id''
     = Some (VStr ''65f0a1b2c3d4e5f601234567'')"
    using s by (simp add: example_oid_parsed field_of_def returned_doc_def)
  with ok st show ?thesis by simp
qed


section \<open>Partial patch\<close>

text \<open>
  Claim C3, as the specification states it: a successful status update whose payload
  supplies only \<open>status\<close> leaves every field of the stored request other than \<open>status\<close>
  as it was. The handler also writes \<open>updated_at\<close>: on the example request the field
  is absent before the update and holds the server's time after it.
\<close>

theorem partial_patch_status_only_counterexample:
  "\<not> isl (fst (update_request_status (Some example_db) ''65f0a1b2c3d4e5f601234567'' only_status)) \<and>
   field_of (stored_request (Some example_db) example_oid) ''updated_at'' = None \<and>
   field_of (stored_request
      (snd (update_request_status (Some example_db) ''65f0a1b2c3d4e5f601234567'' only_status))
      example_oid) ''updated_at'' = Some (VDatetime 1700)"
proof -
  have "\<not> isl (fst (update_request_status (Some example_db) ''65f0a1b2c3d4e5f601234567'' only_status))"
    by (simp add: example_update_result)
  moreover have "body example_request ''updated_at'' = None"
    by (simp add: example_request_def)
  moreover have "localTime example_db = 1700"
    by (simp add: example_db_def)
  ultimately show ?thesis
    by (simp add: example_stored example_stored_after field_of_def update_doc_updated_at)
qed


text \<open>
  Claim C3, amended. For every validated \<open>StatusUpdate\<close> payload, a successful update
  writes \<open>updated_at\<close>, writes each field that the payload supplies with a value other
  than \<open>null\<close>, and leaves every other field and the \<open>_id\<close> of the stored request as
  they were; with a payload that supplies only \<open>status\<close>, every field other than
  \<open>status\<close> and \<open>updated_at\<close> keeps its value.
\<close>

theorem update_request_status_partial_patch:
  assumes "validate_model P StatusUpdate inp = Inr u"
    and "\<not> isl (fst (update_request_status (Some d) rid u))"
  shows "\<exists>oid d0 r. ObjectId_of_str rid = Some oid \<and>
     stored_request (Some d) oid = Some d0 \<and>
     stored_request (snd (update_request_status (Some d) rid u)) oid = Some r \<and>
     doc_id r = doc_id d0 \<and>
     (\<forall>k. body r k =
        (if k = ''updated_at'' then Some (VDatetime (localTime d))
         else if supplied u k then map_of (field_values u) k
         else body d0 k)) \<and>
     (set (model_fields_set u) \<subseteq> {''status''} \<longrightarrow>
        (\<forall>k. k \<noteq> ''status'' \<and> k \<noteq> ''updated_at'' \<longrightarrow> body r k = body d0 k))"
proof -
  from assms(2) obtain oid d0 where oid: "ObjectId_of_str rid = Some oid"
    and d0: "find_one (colls d ''transportrequest'') oid = Some d0"
    by (rule update_request_status_succeeded)
  let ?r = "d0\<lparr>body := body d0 ++ update_doc d u\<rparr>"
  have dist: "distinct (map fst (field_values u))"
    using validate_model_distinct[OF assms(1) StatusUpdate_distinct] .
  have a: "stored_request (Some d) oid = Some d0" using d0 by (simp add: stored_request_def)
  have b: "stored_request (snd (update_request_status (Some d) rid u)) oid = Some ?r"
    using stored_after_update[OF oid d0] .
  have c: "body ?r k =
        (if k = ''updated_at'' then Some (VDatetime (localTime d))
         else if supplied u k then map_of (field_values u) k
         else body d0 k)" for k
    using update_doc_at[OF dist, of d k]
    by (auto simp: map_add_def supplied_def split: option.splits)
  have e: "body ?r k = body d0 k"
    if "set (model_fields_set u) \<subseteq> {''status''}" "k \<noteq> ''status''" "k \<noteq> ''updated_at''" for k
  proof -
    have "k \<notin> set (model_fields_set u)" using that by auto
    then show ?thesis using update_doc_unset[of k u d] that by (simp add: map_add_def)
  qed
  show ?thesis
  proof (intro exI conjI allI impI)
    show "ObjectId_of_str rid = Some oid" by (rule oid)
    show "stored_request (Some d) oid = Some d0" by (rule a)
    show "stored_request (snd (update_request_status (Some d) rid u)) oid = Some ?r" by (rule b)
    show "doc_id ?r = doc_id d0" by simp
    show "body ?r k =
        (if k = ''updated_at'' then Some (VDatetime (localTime d))
         else if supplied u k then map_of (field_values u) k
         else body d0 k)" for k by (rule c)
    show "body ?r k = body d0 k"
      if "set (model_fields_set u) \<subseteq> {''status''}" "k \<noteq> ''status'' \<and> k \<noteq> ''updated_at''" for k
      using e[of k] that by blast
  qed
qed


theorem update_request_status_partial_patch_witness:
  "validate_model example_parsers StatusUpdate [''status'' \<mapsto> JStr ''asignado''] = Inr only_status \<and>
   \<not> isl (fst (update_request_status (Some example_db) ''65f0a1b2c3d4e5f601234567'' only_status)) \<and>
   set (model_fields_set only_status) \<subseteq> {''status''} \<and> 
   field_of (stored_request
      (snd (update_request_status (Some example_db) ''65f0a1b2c3d4e5f601234567'' only_status))
      example_oid) ''last_location'' = Some (VStr ''Zaragoza'') \<and>
   field_of (stored_request
      (snd (update_request_status (Some example_db) ''65f0a1b2c3d4e5f601234567'' only_status))
      example_oid) ''status'' = Some (VStr ''asignado'')"
proof -
  have ok: "\<not> isl (fst (update_request_status (Some example_db) ''65f0a1b2c3d4e5f601234567'' only_status))"
    by (simp add: example_update_result)
  have only: "set (model_fields_set only_status) \<subseteq> {''status''}"
    by (simp add: only_status_def)
  have sup: "supplied only_status ''status''" "map_of (field_values only_status) ''status'' = Some (VStr ''asignado'')"
    by (simp_all add: supplied_def only_status_def)
  have before: "body example_request ''last_location'' = Some (VStr ''Zaragoza'')"
    by (simp add: example_request_def)
  from update_request_status_partial_patch[OF only_status_validated ok]
  obtain oid d0 r where
    "ObjectId_of_str ''65f0a1b2c3d4e5f601234567'' = Some oid"
    "stored_request (Some example_db) oid = Some d0"
    "stored_request (snd (update_request_status (Some example_db) ''65f0a1b2c3d4e5f601234567'' only_status)) oid = Some r"
    "\<forall>k. body r k =
        (if k = ''updated_at'' then Some (VDatetime (localTime example_db))
         else if supplied only_status k then map_of (field_values only_status) k
         else body d0 k)"
    "set (model_fields_set only_status) \<subseteq> {''status''} \<longrightarrow>
        (\<forall>k. k \<noteq> ''status'' \<and> k \<noteq> ''updated_at'' \<longrightarrow> body r k = body d0 k)"
    by blast
  then show ?thesis using only_status_validated ok only sup before
    by (simp add: example_oid_parsed example_stored field_of_def)
qed


section \<open>The time stamp of an update\<close>

text \<open>
  Claim C4. Every successful status update writes \<open>updated_at\<close> onto the stored request
  (and the returned document), and the value is the \<open>localTime\<close> that the store's
  \<open>serverStatus\<close> reports: it is the same whatever the payload holds, the payload's
  own \<open>timestamp\<close> included.
\<close>

theorem updated_at_from_server_clock:
  assumes "\<not> isl (fst (update_request_status (Some d) rid u))"
  shows "\<exists>oid. ObjectId_of_str rid = Some oid \<and>
     field_of (stored_request (snd (update_request_status (Some d) rid u)) oid) ''updated_at''
       = Some (VDatetime (localTime d)) \<and>
     field_of (returned_doc (fst (update_request_status (Some d) rid u))) ''updated_at''
       = Some (VDatetime (localTime d)) \<and>
     (\<forall>u'. field_of (stored_request (snd (update_request_status (Some d) rid u')) oid) ''updated_at''
       = Some (VDatetime (localTime d)))"
proof -
  from assms obtain oid d0 where oid: "ObjectId_of_str rid = Some oid"
    and d0: "find_one (colls d ''transportrequest'') oid = Some d0"
    by (rule update_request_status_succeeded)
  have "field_of (stored_request (snd (update_request_status (Some d) rid u')) oid) ''updated_at''
       = Some (VDatetime (localTime d))" for u'
    by (simp add: stored_after_update[OF oid d0] field_of_def update_doc_updated_at)
  moreover have "field_of (returned_doc (fst (update_request_status (Some d) rid u))) ''updated_at''
       = Some (VDatetime (localTime d))"
    by (simp add: update_request_status_found[OF oid d0] returned_doc_def field_of_def
        to_str_id_body update_doc_updated_at)
  ultimately show ?thesis using oid by simp
qed

theorem updated_at_from_server_clock_witness:
  "\<not> isl (fst (update_request_status (Some example_db) ''65f0a1b2c3d4e5f601234567'' status_and_timestamp)) \<and>
   field_of (stored_request
      (snd (update_request_status (Some example_db) ''65f0a1b2c3d4e5f601234567'' status_and_timestamp))
      example_oid) ''updated_at'' = Some (VDatetime 1700) \<and>
   field_of (stored_request
      (snd (update_request_status (Some example_db) ''65f0a1b2c3d4e5f601234567'' status_and_timestamp))
      example_oid) ''timestamp'' = Some (VDatetime 5)"
proof -
  have ok: "\<not> isl (fst (update_request_status (Some example_db) ''65f0a1b2c3d4e5f601234567'' status_and_timestamp))"
    by (simp add: example_update_result)
  have ts: "field_of (stored_request
      (snd (update_request_status (Some example_db) ''65f0a1b2c3d4e5f601234567'' status_and_timestamp))
      example_oid) ''timestamp'' = Some (VDatetime 5)"
    by (simp add: example_stored_after field_of_def update_doc_def model_dump_exclude_unset_def
        status_and_timestamp_def map_add_def)
  have clock: "localTime example_db = 1700" by (simp add: example_db_def)
  from updated_at_from_server_clock[OF ok] ok ts clock show ?thesis
    by (auto simp: example_oid_parsed)
qed


end
